theory Spec2Isabelle
  imports Main
begin

section \<open>The chat session engine of \<^verbatim>\<open>packages/react/src/use-chat.ts\<close>\<close>

text \<open>
  The hook \<^verbatim>\<open>useChat\<close> keeps a conversation in a store (messages, status, error,
  stream data), and drives request cycles against a transport (\<^verbatim>\<open>callChatApi\<close>).
  The store and the refs of the hook are the fields of the record \<open>session\<close>; every
  operation of the hook takes the session and returns the new one. Throttling is
  disabled (\<^verbatim>\<open>experimental_throttle\<close> is undefined by default, so
  \<^verbatim>\<open>throttle(mutate, undefined)\<close> is \<^verbatim>\<open>mutate\<close>), and \<^verbatim>\<open>messagesRef.current\<close> is read as the
  stored message list. An operation runs from its call to the end of the request it
  starts; other operations of the hook are not interleaved with a call in flight.
\<close>

subsection \<open>Messages\<close>

text \<open>
  Modelled from the spec: the types \<^verbatim>\<open>Message\<close>, \<^verbatim>\<open>UIMessage\<close>, \<^verbatim>\<open>CreateMessage\<close>,
  \<^verbatim>\<open>ToolInvocation\<close> and \<^verbatim>\<open>Attachment\<close> are declared in \<^verbatim>\<open>@ai-sdk/ui-utils\<close>, which is not among
  the sources. Their fields are those of the spec's data model (section 3), with the
  step of a tool invocation that section 4.2 speaks of; they are the fields that
  \<^verbatim>\<open>use-chat.ts\<close> reads and writes. Opaque values (arguments and results of tools, JSON
  data) are strings, a timestamp is a number.
\<close>

datatype role = User | Assistant | System | Tool

datatype invocation_state = PartialCall | Call | Result

record tool_invocation =
  toolCallId :: string
  toolName :: string
  args :: string
  state :: invocation_state
  result :: "string option"
  step :: "nat option"

datatype part = TextPart string | ToolInvocationPart tool_invocation | DataPart string

record attachment =
  attachment_name :: "string option"
  contentType :: "string option"
  url :: string

text \<open>
  \<^verbatim>\<open>Message\<close> and \<^verbatim>\<open>CreateMessage\<close> differ in the id: a \<^verbatim>\<open>CreateMessage\<close> may come without
  one. Optional fields of the TypeScript types are \<open>option\<close>s; \<^verbatim>\<open>undefined\<close> is \<open>None\<close>.
\<close>

record 'i msg =
  message_id :: 'i
  role :: role
  content :: string
  createdAt :: "nat option"
  experimental_attachments :: "attachment list option"
  toolInvocations :: "tool_invocation list option"
  parts :: "part list option"

type_synonym message = "string msg"
type_synonym create_message = "string option msg"

subsection \<open>Helpers imported from \<^verbatim>\<open>@ai-sdk/ui-utils\<close>\<close>

text \<open>
  Modelled from the spec: \<^verbatim>\<open>getMessageParts\<close> is imported from \<^verbatim>\<open>@ai-sdk/ui-utils\<close>, which is
  not among the sources. The spec: every message has \<open>parts\<close> populated, "derived from
  legacy fields if absent"; the legacy fields are the tool invocations and the text
  content.
\<close>

definition getMessageParts :: "'i msg \<Rightarrow> part list" where
  "getMessageParts m =
     (case parts m of
        Some ps \<Rightarrow> ps
      | None \<Rightarrow>
          (case toolInvocations m of None \<Rightarrow> [] | Some tis \<Rightarrow> map ToolInvocationPart tis) @
          (if content m = [] then [] else [TextPart (content m)]))"

text \<open>
  Modelled from the spec: \<^verbatim>\<open>fillMessageParts\<close> is imported from \<^verbatim>\<open>@ai-sdk/ui-utils\<close>. It is
  the normalisation that populates \<open>parts\<close> on every message of a list.
\<close>

definition fillMessageParts :: "message list \<Rightarrow> message list" where
  "fillMessageParts ms = map (\<lambda>m. m\<lparr>parts := Some (getMessageParts m)\<rparr>) ms"

text \<open>
  Modelled from the spec: \<^verbatim>\<open>extractMaxToolInvocationStep\<close> is imported from
  \<^verbatim>\<open>@ai-sdk/ui-utils\<close>. The spec: "the highest tool-invocation step present in the last
  message"; there is none (\<^verbatim>\<open>undefined\<close>) when the message has no tool invocations field. An
  invocation without a step counts as step 0.
\<close>

definition extractMaxToolInvocationStep :: "tool_invocation list option \<Rightarrow> nat option" where
  "extractMaxToolInvocationStep tis =
     (case tis of
        None \<Rightarrow> None
      | Some xs \<Rightarrow> Some (fold (\<lambda>ti acc. max acc (case step ti of None \<Rightarrow> 0 | Some s \<Rightarrow> s)) xs 0))"

text \<open>
  Modelled from the spec: \<^verbatim>\<open>isAssistantMessageWithCompletedToolCalls\<close> is imported from
  \<^verbatim>\<open>@ai-sdk/ui-utils\<close>. The spec: "an assistant message whose tool invocations are now all
  resolved". The message has tool calls (the name says "with completed tool calls"), and
  each of them is in state \<open>Result\<close>.
\<close>

definition isAssistantMessageWithCompletedToolCalls :: "message \<Rightarrow> bool" where
  "isAssistantMessageWithCompletedToolCalls m =
     (role m = Assistant \<and>
      (case toolInvocations m of
         None \<Rightarrow> False
       | Some tis \<Rightarrow> tis \<noteq> [] \<and> list_all (\<lambda>ti. state ti = Result) tis))"

text \<open>
  Modelled from the spec: the progress test of \<^verbatim>\<open>shouldResubmitMessages\<close>, for the tool
  step. The spec: the "tool-step count has strictly advanced since step 1". A message
  without tool invocations has no step; a step where there was none is an advance.
\<close>

definition stepAdvanced :: "nat option \<Rightarrow> nat option \<Rightarrow> bool" where
  "stepAdvanced original current =
     (case current of
        None \<Rightarrow> False
      | Some c \<Rightarrow> (case original of None \<Rightarrow> True | Some orig \<Rightarrow> orig < c))"

text \<open>
  Modelled from the spec: \<^verbatim>\<open>shouldResubmitMessages\<close> is imported from \<^verbatim>\<open>@ai-sdk/ui-utils\<close>. The
  spec, 4.2 step 8, conjunct by conjunct: the step bound "defaults to 1 (i.e., no
  auto-continuation)", so the check is off unless the bound exceeds 1; there is a last
  message; "the message count or tool-step count has strictly advanced since step 1";
  "the last message is an assistant message whose tool invocations are now all
  resolved"; "the number of resubmissions so far is below the configured step bound",
  the resubmissions so far being read off the tool-step count of the last message, the
  only counter the call site passes.
\<close>

definition shouldResubmitMessages :: "nat option \<Rightarrow> nat \<Rightarrow> nat \<Rightarrow> message list \<Rightarrow> bool" where
  "shouldResubmitMessages originalMaxToolInvocationStep originalMessageCount maxSteps messages =
     (case messages of
        [] \<Rightarrow> False
      | _ # _ \<Rightarrow>
          (let lastMessage = last messages;
               currentStep = extractMaxToolInvocationStep (toolInvocations lastMessage)
           in maxSteps > 1 \<and>
              (length messages > originalMessageCount \<or>
               stepAdvanced originalMaxToolInvocationStep currentStep) \<and>
              isAssistantMessageWithCompletedToolCalls lastMessage \<and>
              (case currentStep of None \<Rightarrow> 0 | Some s \<Rightarrow> s) < maxSteps))"

text \<open>
  Modelled from the spec: what \<^verbatim>\<open>updateToolCallResult\<close> does to one tool invocation. The
  spec, 4.3: the invocation with the matching id gets state \<open>Result\<close> and the result;
  the others are left as they are.
\<close>

definition resolveInvocation :: "string \<Rightarrow> string \<Rightarrow> tool_invocation \<Rightarrow> tool_invocation" where
  "resolveInvocation callId toolResult ti =
     (if toolCallId ti = callId then ti\<lparr>state := Result, result := Some toolResult\<rparr> else ti)"

text \<open>
  Modelled from the spec: what \<^verbatim>\<open>updateToolCallResult\<close> does to one part: a
  tool-invocation part holds a tool invocation; other parts are left as they are.
\<close>

fun resolvePart :: "string \<Rightarrow> string \<Rightarrow> part \<Rightarrow> part" where
  "resolvePart callId toolResult (ToolInvocationPart ti) =
     ToolInvocationPart (resolveInvocation callId toolResult ti)"
| "resolvePart callId toolResult p = p"

text \<open>
  Modelled from the spec: \<^verbatim>\<open>updateToolCallResult\<close> is imported from \<^verbatim>\<open>@ai-sdk/ui-utils\<close>. The
  spec, 4.3: it "finds the invocation with matching id in the last message, sets its
  state to result and attaches result". The invocation is updated where the message
  records it: in the tool invocations field and in the tool-invocation parts.
\<close>

definition updateToolCallResult :: "message list \<Rightarrow> string \<Rightarrow> string \<Rightarrow> message list" where
  "updateToolCallResult messages callId toolResult =
     (case messages of
        [] \<Rightarrow> []
      | _ # _ \<Rightarrow>
          (let lastMessage = last messages in
           butlast messages @
           [lastMessage\<lparr>toolInvocations :=
                          map_option (map (resolveInvocation callId toolResult))
                            (toolInvocations lastMessage),
                        parts :=
                          map_option (map (resolvePart callId toolResult)) (parts lastMessage)\<rparr>]))"

text \<open>
  Modelled from the spec: \<^verbatim>\<open>prepareAttachmentsForRequest\<close> is imported from
  \<^verbatim>\<open>@ai-sdk/ui-utils\<close>. The spec, 4.4: it "resolves attachments into an inline, request-ready
  form"; no attachments give the empty list. Reading file contents is not modelled: the
  attachments are taken as already carrying their url.
\<close>

definition prepareAttachmentsForRequest :: "attachment list option \<Rightarrow> attachment list" where
  "prepareAttachmentsForRequest atts = (case atts of None \<Rightarrow> [] | Some xs \<Rightarrow> xs)"

subsection \<open>The session: the store and the refs of the hook\<close>

datatype status = Submitted | Streaming | Ready | Error

text \<open>
  A value thrown by the transport call, as far as the \<^verbatim>\<open>catch\<close> block looks at it: an
  instance of \<^verbatim>\<open>Error\<close> with its name and message; another non-null value with its \<^verbatim>\<open>name\<close>
  property if it has one; or \<^verbatim>\<open>null\<close>/\<^verbatim>\<open>undefined\<close>, whose \<^verbatim>\<open>name\<close> cannot be read.
\<close>

datatype thrown = ErrorInstance string string | OtherValue "string option" | Nullish

fun thrownName :: "thrown \<Rightarrow> string option" where
  "thrownName (ErrorInstance n m) = Some n"
| "thrownName (OtherValue n) = n"
| "thrownName Nullish = None"

fun instanceofError :: "thrown \<Rightarrow> bool" where
  "instanceofError (ErrorInstance n m) = True"
| "instanceofError v = False"

datatype abort_controller = AbortController

text \<open>
  The options of \<^verbatim>\<open>useChat\<close> that the modelled operations read. \<open>onError\<close> says whether the
  caller passed the callback; \<open>generateId\<close> is the id generator, read at a counter.
\<close>

record config =
  initialMessages :: "message list option"
  initialInput :: string
  maxSteps :: nat
  keepLastMessageOnError :: bool
  onError :: bool
  generateId :: "nat \<Rightarrow> string"

text \<open>
  \<open>status_data\<close> and \<open>error\<close> are the SWR entries (\<open>None\<close> is \<^verbatim>\<open>undefined\<close>).
  \<open>onErrorCalls\<close> and \<open>requests\<close> are logs: the arguments of every call of the
  caller's \<^verbatim>\<open>onError\<close>, and the message list of every call of \<^verbatim>\<open>callChatApi\<close>, in order.
  \<open>idCounter\<close> counts the calls of \<^verbatim>\<open>generateId\<close>, \<open>clock\<close> is what \<^verbatim>\<open>new Date()\<close> reads.
\<close>

record session =
  messages :: "message list"
  streamData :: "string list option"
  status_data :: "status option"
  error :: "thrown option"
  abortControllerRef :: "abort_controller option"
  input :: string
  onErrorCalls :: "thrown list"
  requests :: "message list list"
  idCounter :: nat
  clock :: nat

text \<open>\<^verbatim>\<open>const { data: status = 'ready' } = useSWR(...)\<close>: the status read by the hook.\<close>

definition status :: "session \<Rightarrow> status" where
  "status st = (case status_data st of None \<Rightarrow> Ready | Some s \<Rightarrow> s)"

text \<open>The session of a hook that has run no operation yet.\<close>

definition useChat_init :: "config \<Rightarrow> session" where
  "useChat_init cfg =
     \<lparr>messages = fillMessageParts (case initialMessages cfg of None \<Rightarrow> [] | Some ms \<Rightarrow> ms),
      streamData = None,
      status_data = None,
      error = None,
      abortControllerRef = None,
      input = initialInput cfg,
      onErrorCalls = [],
      requests = [],
      idCounter = 0,
      clock = 0\<rparr>"



subsection \<open>The transport call\<close>

text \<open>
  \<^verbatim>\<open>callChatApi\<close> is imported from \<^verbatim>\<open>@ai-sdk/ui-utils\<close> and is not among the sources: its
  behaviour is a parameter of the model. What one call does to the session is what it
  does through the callbacks \<^verbatim>\<open>triggerRequest\<close> hands it, in order (\<^verbatim>\<open>onUpdate\<close> and
  \<^verbatim>\<open>restoreMessagesOnFailure\<close>; the caller's \<^verbatim>\<open>onResponse\<close>, \<^verbatim>\<open>onToolCall\<close> and \<^verbatim>\<open>onFinish\<close> do not
  touch the session, and \<^verbatim>\<open>onError\<close> is not passed to it), and how its promise settles. A \<open>call_outcome\<close> is one such
  behaviour; the transport is the list of the outcomes of its successive calls. A call
  beyond the end of the list never settles.
\<close>

datatype stream_event =
    Update message "string list option" bool
  | RestoreMessagesOnFailure

datatype call_finish = Completes | Rejects thrown

record call_outcome =
  events :: "stream_event list"
  finish :: call_finish

record chat_request =
  req_messages :: "message list"
  req_headers :: "string option"
  req_body :: "string option"
  req_data :: "string option"

text \<open>The request \<^verbatim>\<open>{ messages }\<close>: no headers, body or data.\<close>

definition plainRequest :: "message list \<Rightarrow> chat_request" where
  "plainRequest ms = \<lparr>req_messages = ms, req_headers = None, req_body = None, req_data = None\<rparr>"

text \<open>What one cycle of \<^verbatim>\<open>triggerRequest\<close> holds in local constants across its \<^verbatim>\<open>await\<close>.\<close>

record pending_request =
  chatMessages :: "message list"
  messageCount :: nat
  maxStep :: "nat option"
  previousMessages :: "message list"
  existingData :: "string list option"

definition pendingRequest :: "chat_request \<Rightarrow> session \<Rightarrow> pending_request" where
  "pendingRequest chatRequest st =
     (let chatMessages = fillMessageParts (req_messages chatRequest) in
      \<lparr>chatMessages = chatMessages,
       messageCount = length chatMessages,
       maxStep = extractMaxToolInvocationStep
                   (case chatMessages of [] \<Rightarrow> None | _ # _ \<Rightarrow> toolInvocations (last chatMessages)),
       previousMessages = messages st,
       existingData = streamData st\<rparr>)"

text \<open>
  \<^verbatim>\<open>triggerRequest\<close> from its first line to the call of \<^verbatim>\<open>callChatApi\<close>: status and error
  are reset, the abort controller is installed, the messages are written
  optimistically, the call is issued.
\<close>

definition startRequest :: "chat_request \<Rightarrow> session \<Rightarrow> session" where
  "startRequest chatRequest st =
     (let chatMessages = fillMessageParts (req_messages chatRequest) in
      st\<lparr>status_data := Some Submitted,
         error := None,
         abortControllerRef := Some AbortController,
         messages := chatMessages,
         requests := requests st @ [chatMessages]\<rparr>)"

fun applyEvent :: "config \<Rightarrow> pending_request \<Rightarrow> stream_event \<Rightarrow> session \<Rightarrow> session" where
  "applyEvent cfg pr (Update message data replaceLastMessage) st =
     st\<lparr>status_data := Some Streaming,
        messages :=
          (if replaceLastMessage then butlast (chatMessages pr) else chatMessages pr) @ [message],
        streamData :=
          (case data of
             None \<Rightarrow> streamData st
           | Some d \<Rightarrow>
               if d = [] then streamData st
               else Some ((case existingData pr of None \<Rightarrow> [] | Some e \<Rightarrow> e) @ d))\<rparr>"
| "applyEvent cfg pr RestoreMessagesOnFailure st =
     (if \<not> keepLastMessageOnError cfg then st\<lparr>messages := previousMessages pr\<rparr> else st)"

datatype cycle_end = CycleReady | CycleError | CycleCancelled | CycleThrew

text \<open>
  The \<^verbatim>\<open>catch\<close> block. Reading \<^verbatim>\<open>err.name\<close> of \<^verbatim>\<open>null\<close> or \<^verbatim>\<open>undefined\<close> throws a
  \<^verbatim>\<open>TypeError\<close> out of the block, before anything is written.
\<close>

definition catchBlock :: "config \<Rightarrow> thrown \<Rightarrow> session \<Rightarrow> cycle_end \<times> session" where
  "catchBlock cfg err st =
     (if err = Nullish then (CycleThrew, st)
      else if thrownName err = Some ''AbortError''
      then (CycleCancelled, st\<lparr>abortControllerRef := None, status_data := Some Ready\<rparr>)
      else
        (let st1 = (if onError cfg \<and> instanceofError err
                    then st\<lparr>onErrorCalls := onErrorCalls st @ [err]\<rparr> else st)
         in (CycleError, st1\<lparr>error := Some err, status_data := Some Error\<rparr>)))"

text \<open>\<^verbatim>\<open>triggerRequest\<close> from the call of \<^verbatim>\<open>callChatApi\<close> to the end of \<^verbatim>\<open>try\<close>/\<^verbatim>\<open>catch\<close>.\<close>

definition finishCycle ::
  "config \<Rightarrow> call_outcome \<Rightarrow> pending_request \<Rightarrow> session \<Rightarrow> cycle_end \<times> session" where
  "finishCycle cfg outcome pr st =
     (let st1 = fold (applyEvent cfg pr) (events outcome) st in
      case finish outcome of
        Completes \<Rightarrow> (CycleReady, st1\<lparr>abortControllerRef := None, status_data := Some Ready\<rparr>)
      | Rejects err \<Rightarrow> catchBlock cfg err st1)"

text \<open>One request cycle: the body of \<^verbatim>\<open>triggerRequest\<close> up to the end of \<^verbatim>\<open>try\<close>/\<^verbatim>\<open>catch\<close>.\<close>

definition requestCycle ::
  "config \<Rightarrow> call_outcome \<Rightarrow> chat_request \<Rightarrow> session \<Rightarrow> cycle_end \<times> session" where
  "requestCycle cfg outcome chatRequest st =
     finishCycle cfg outcome (pendingRequest chatRequest st) (startRequest chatRequest st)"

text \<open>
  How the promise of an async operation ends: it resolves to \<^verbatim>\<open>null\<close>, \<^verbatim>\<open>undefined\<close> or a
  string, it rejects, or it stays pending (the transport never settled).
\<close>

datatype js_value = Null | Undefined | String string

datatype promise = Resolved js_value | Rejected | Pending

text \<open>
  \<^verbatim>\<open>await triggerRequest({ messages })\<close> as the last statement: a rejection propagates, the
  resolved value is dropped and the function returns \<^verbatim>\<open>undefined\<close>.
\<close>

fun awaitLast :: "promise \<times> session \<Rightarrow> promise \<times> session" where
  "awaitLast (Resolved v, st) = (Resolved Undefined, st)"
| "awaitLast (p, st) = (p, st)"

text \<open>
  \<^verbatim>\<open>triggerRequest\<close> after the call of \<^verbatim>\<open>callChatApi\<close> has been issued. The recursive call
  is \<^verbatim>\<open>triggerRequest({ messages })\<close> on the rest of the transport.
\<close>

fun resumeRequest ::
  "config \<Rightarrow> call_outcome list \<Rightarrow> pending_request \<Rightarrow> session \<Rightarrow> promise \<times> session" where
  "resumeRequest cfg [] pr st = (Pending, st)"
| "resumeRequest cfg (outcome # transport) pr st =
     (case finishCycle cfg outcome pr st of
        (CycleCancelled, st1) \<Rightarrow> (Resolved Null, st1)
      | (CycleThrew, st1) \<Rightarrow> (Rejected, st1)
      | (ended, st1) \<Rightarrow>
          if shouldResubmitMessages (maxStep pr) (messageCount pr) (maxSteps cfg) (messages st1)
          then
            awaitLast
              (resumeRequest cfg transport (pendingRequest (plainRequest (messages st1)) st1)
                 (startRequest (plainRequest (messages st1)) st1))
          else (Resolved Undefined, st1))"

definition triggerRequest ::
  "config \<Rightarrow> call_outcome list \<Rightarrow> chat_request \<Rightarrow> session \<Rightarrow> promise \<times> session" where
  "triggerRequest cfg transport chatRequest st =
     resumeRequest cfg transport (pendingRequest chatRequest st) (startRequest chatRequest st)"

subsection \<open>The operations of the hook\<close>

record chat_request_options =
  opt_headers :: "string option"
  opt_body :: "string option"
  opt_data :: "string option"
  opt_attachments :: "attachment list option"
  allowEmptySubmit :: bool

text \<open>\<^verbatim>\<open>generateId()\<close>: the next id of the generator.\<close>

definition nextId :: "config \<Rightarrow> session \<Rightarrow> string \<times> session" where
  "nextId cfg st = (generateId cfg (idCounter st), st\<lparr>idCounter := Suc (idCounter st)\<rparr>)"

text \<open>The message object that \<^verbatim>\<open>append\<close> concatenates onto the history.\<close>

definition appendedMessage :: "string \<Rightarrow> create_message \<Rightarrow> chat_request_options \<Rightarrow> session \<Rightarrow> message" where
  "appendedMessage newId message options st =
     (let attachmentsForRequest = prepareAttachmentsForRequest (opt_attachments options) in
      \<lparr>message_id = newId,
       role = role message,
       content = content message,
       createdAt = (case createdAt message of None \<Rightarrow> Some (clock st) | Some t \<Rightarrow> Some t),
       experimental_attachments =
         (if length attachmentsForRequest > 0 then Some attachmentsForRequest else None),
       toolInvocations = toolInvocations message,
       parts = Some (getMessageParts message)\<rparr>)"

definition append ::
  "config \<Rightarrow> call_outcome list \<Rightarrow> create_message \<Rightarrow> chat_request_options \<Rightarrow> session
     \<Rightarrow> promise \<times> session" where
  "append cfg transport message options st =
     (let (newId, st1) = (case message_id message of None \<Rightarrow> nextId cfg st | Some i \<Rightarrow> (i, st));
          messages = messages st1 @ [appendedMessage newId message options st1]
      in triggerRequest cfg transport
           \<lparr>req_messages = messages, req_headers = opt_headers options,
            req_body = opt_body options, req_data = opt_data options\<rparr> st1)"

definition reload ::
  "config \<Rightarrow> call_outcome list \<Rightarrow> chat_request_options \<Rightarrow> session \<Rightarrow> promise \<times> session" where
  "reload cfg transport options st =
     (let messages = messages st in
      if length messages = 0 then (Resolved Null, st)
      else
        (let lastMessage = last messages in
         triggerRequest cfg transport
           \<lparr>req_messages = (if role lastMessage = Assistant then butlast messages else messages),
            req_headers = opt_headers options, req_body = opt_body options,
            req_data = opt_data options\<rparr> st))"

text \<open>\<^verbatim>\<open>setMessages\<close> takes a message list or a function of the current list.\<close>

datatype messages_update = Direct "message list" | Functional "message list \<Rightarrow> message list"

fun setMessages :: "messages_update \<Rightarrow> session \<Rightarrow> session" where
  "setMessages (Functional f) st = st\<lparr>messages := fillMessageParts (f (messages st))\<rparr>"
| "setMessages (Direct ms) st = st\<lparr>messages := fillMessageParts ms\<rparr>"

text \<open>
  \<^verbatim>\<open>handleSubmit\<close>. It calls \<^verbatim>\<open>triggerRequest\<close> without awaiting it: the call runs up to its
  \<^verbatim>\<open>await callChatApi\<close>, then \<^verbatim>\<open>setInput('')\<close> runs, and the cycle goes on when the transport
  settles. \<open>submittedRequest\<close> is the request it builds, \<open>handleSubmitStarted\<close> the session
  when \<^verbatim>\<open>handleSubmit\<close> has run its last line, \<open>handleSubmit\<close> the session when the
  request it started has ended. The \<^verbatim>\<open>metadata\<close> argument (credentials, headers and body of
  later requests) is left out.
\<close>

definition submittedRequest :: "config \<Rightarrow> chat_request_options \<Rightarrow> session \<Rightarrow> chat_request \<times> session" where
  "submittedRequest cfg options st =
     (let attachmentsForRequest = prepareAttachmentsForRequest (opt_attachments options);
          (newId, st1) = nextId cfg st;
          messages = messages st1 @
            [\<lparr>message_id = newId,
              role = User,
              content = input st1,
              createdAt = Some (clock st1),
              experimental_attachments =
                (if length attachmentsForRequest > 0 then Some attachmentsForRequest else None),
              toolInvocations = None,
              parts = Some [TextPart (input st1)]\<rparr>]
      in (\<lparr>req_messages = messages, req_headers = opt_headers options,
           req_body = opt_body options, req_data = opt_data options\<rparr>, st1))"

definition handleSubmitStarted :: "config \<Rightarrow> chat_request_options \<Rightarrow> session \<Rightarrow> session" where
  "handleSubmitStarted cfg options st =
     (if input st = [] \<and> \<not> allowEmptySubmit options then st
      else
        (let (chatRequest, st1) = submittedRequest cfg options st in
         (startRequest chatRequest st1)\<lparr>input := []\<rparr>))"

definition handleSubmit ::
  "config \<Rightarrow> call_outcome list \<Rightarrow> chat_request_options \<Rightarrow> session \<Rightarrow> session" where
  "handleSubmit cfg transport options st =
     (if input st = [] \<and> \<not> allowEmptySubmit options then st
      else
        (let (chatRequest, st1) = submittedRequest cfg options st in
         snd (resumeRequest cfg transport (pendingRequest chatRequest st1)
                (handleSubmitStarted cfg options st))))"

text \<open>
  \<^verbatim>\<open>addToolResult\<close>. \<^verbatim>\<open>updateToolCallResult\<close> updates \<^verbatim>\<open>currentMessages\<close> in place, and the
  list is published again with its last message cloned. \<^verbatim>\<open>triggerRequest\<close> is not awaited;
  the result is the session when the request has ended. On an empty history there is
  no last message: the source publishes a list holding an object without fields, which
  is no \<open>message\<close>, so the model gives no session there.
\<close>

definition addToolResult ::
  "config \<Rightarrow> call_outcome list \<Rightarrow> string \<Rightarrow> string \<Rightarrow> session \<Rightarrow> session option" where
  "addToolResult cfg transport callId toolResult st =
     (case messages st of
        [] \<Rightarrow> None
      | _ # _ \<Rightarrow>
          (let currentMessages = updateToolCallResult (messages st) callId toolResult;
               st1 = st\<lparr>messages := butlast currentMessages @ [last currentMessages]\<rparr>
           in if status st = Submitted \<or> status st = Streaming then Some st1
              else
                (let lastMessage = last currentMessages in
                 if isAssistantMessageWithCompletedToolCalls lastMessage
                 then Some (snd (triggerRequest cfg transport (plainRequest currentMessages) st1))
                 else Some st1)))"

subsection \<open>Properties of messages and transports that the theorems speak of\<close>

definition hasParts :: "'i msg \<Rightarrow> bool" where
  "hasParts m = (parts m \<noteq> None)"

text \<open>\<^verbatim>\<open>onUpdate\<close> receives a \<^verbatim>\<open>UIMessage\<close>, whose \<^verbatim>\<open>parts\<close> field is not optional.\<close>

fun eventHasParts :: "stream_event \<Rightarrow> bool" where
  "eventHasParts (Update message data replaceLastMessage) = hasParts message"
| "eventHasParts RestoreMessagesOnFailure = True"

definition transportHasParts :: "call_outcome list \<Rightarrow> bool" where
  "transportHasParts transport = list_all (\<lambda>outcome. list_all eventHasParts (events outcome)) transport"

text \<open>A message that carries a tool invocation without a result.\<close>

definition hasUnresolvedToolCall :: "message \<Rightarrow> bool" where
  "hasUnresolvedToolCall m =
     (case toolInvocations m of
        None \<Rightarrow> False
      | Some tis \<Rightarrow> list_ex (\<lambda>ti. state ti \<noteq> Result) tis)"

subsection \<open>Concrete sessions\<close>

definition exampleConfig :: config where
  "exampleConfig =
     \<lparr>initialMessages = None, initialInput = ''hi'', maxSteps = 1,
      keepLastMessageOnError = True, onError = True, generateId = (\<lambda>n. replicate (Suc n) CHR ''m'')\<rparr>"

definition userMessage :: message where
  "userMessage =
     \<lparr>message_id = ''u1'', role = User, content = ''hi'', createdAt = Some 0,
      experimental_attachments = None, toolInvocations = None, parts = Some [TextPart ''hi'']\<rparr>"

definition userCreateMessage :: create_message where
  "userCreateMessage =
     \<lparr>message_id = None, role = User, content = ''hi'', createdAt = None,
      experimental_attachments = None, toolInvocations = None, parts = None\<rparr>"

definition weatherCall :: tool_invocation where
  "weatherCall =
     \<lparr>toolCallId = ''call-1'', toolName = ''weather'', args = ''{}'', state = Call,
      result = None, step = Some 0\<rparr>"

definition weatherResult :: tool_invocation where
  "weatherResult = weatherCall\<lparr>state := Result, result := Some ''sunny''\<rparr>"

definition assistantMessage :: "tool_invocation list option \<Rightarrow> message" where
  "assistantMessage tis =
     \<lparr>message_id = ''a1'', role = Assistant, content = ''Hello'', createdAt = Some 1,
      experimental_attachments = None, toolInvocations = tis,
      parts = Some ((case tis of None \<Rightarrow> [] | Some xs \<Rightarrow> map ToolInvocationPart xs) @
                    [TextPart ''Hello''])\<rparr>"

definition streamed :: "message \<Rightarrow> call_finish \<Rightarrow> call_outcome" where
  "streamed m fin = \<lparr>events = [Update m None False], finish = fin\<rparr>"

definition noOptions :: chat_request_options where
  "noOptions =
     \<lparr>opt_headers = None, opt_body = None, opt_data = None, opt_attachments = None,
      allowEmptySubmit = False\<rparr>"

definition clockCall :: tool_invocation where
  "clockCall =
     \<lparr>toolCallId = ''call-2'', toolName = ''clock'', args = ''{}'', state = Call,
      result = None, step = Some 0\<rparr>"



text \<open>The session of the example configuration, with a given history.\<close>

definition sessionWith :: "message list \<Rightarrow> session" where
  "sessionWith ms = (useChat_init exampleConfig)\<lparr>messages := ms\<rparr>"

section \<open>Lemmas about the engine\<close>

lemma applyEvent_frame:
  "error (applyEvent cfg pr ev st) = error st"
  "onErrorCalls (applyEvent cfg pr ev st) = onErrorCalls st"
  "requests (applyEvent cfg pr ev st) = requests st"
  "input (applyEvent cfg pr ev st) = input st"
  by (cases ev; simp)+

lemma fold_applyEvent_frame:
  "error (fold (applyEvent cfg pr) evs st) = error st \<and>
   onErrorCalls (fold (applyEvent cfg pr) evs st) = onErrorCalls st \<and>
   requests (fold (applyEvent cfg pr) evs st) = requests st \<and>
   input (fold (applyEvent cfg pr) evs st) = input st"
  by (induction evs arbitrary: st) (simp_all add: applyEvent_frame)

lemma startRequest_fields:
  "error (startRequest chatRequest st) = None"
  "onErrorCalls (startRequest chatRequest st) = onErrorCalls st"
  "requests (startRequest chatRequest st) = requests st @ [fillMessageParts (req_messages chatRequest)]"
  "input (startRequest chatRequest st) = input st"
  "status (startRequest chatRequest st) = Submitted"
  "messages (startRequest chatRequest st) = fillMessageParts (req_messages chatRequest)"
  by (simp_all add: startRequest_def status_def Let_def)

lemma named_not_nullish: "thrownName err = Some n \<Longrightarrow> err \<noteq> Nullish"
  by (cases err) simp_all

lemma catchBlock_frame:
  "requests (snd (catchBlock cfg err st)) = requests st"
  "input (snd (catchBlock cfg err st)) = input st"
  "messages (snd (catchBlock cfg err st)) = messages st"
  by (simp_all add: catchBlock_def Let_def)

lemma finishCycle_frame:
  "requests (snd (finishCycle cfg outcome pr st)) = requests st"
  "input (snd (finishCycle cfg outcome pr st)) = input st"
  by (simp_all add: finishCycle_def Let_def catchBlock_frame fold_applyEvent_frame
      split: call_finish.split)

lemma finishCycle_messages:
  "messages (snd (finishCycle cfg outcome pr st)) = messages (fold (applyEvent cfg pr) (events outcome) st)"
  by (simp add: finishCycle_def Let_def catchBlock_frame split: call_finish.split)

lemma finishCycle_cancelled:
  assumes "thrownName err = Some ''AbortError''"
  shows "finishCycle cfg \<lparr>events = evs, finish = Rejects err\<rparr> pr st =
           (CycleCancelled,
            (fold (applyEvent cfg pr) evs st)\<lparr>abortControllerRef := None, status_data := Some Ready\<rparr>)"
  using assms named_not_nullish[OF assms]
  by (simp add: finishCycle_def catchBlock_def)

lemma resumeRequest_no_resubmit:
  assumes "\<not> shouldResubmitMessages (maxStep pr) (messageCount pr) (maxSteps cfg)
               (messages (snd (finishCycle cfg outcome pr st)))"
  shows "snd (resumeRequest cfg (outcome # transport) pr st) = snd (finishCycle cfg outcome pr st)"
    and "fst (resumeRequest cfg (outcome # transport) pr st) \<noteq> Pending"
  using assms
  by (cases "finishCycle cfg outcome pr st"; cases "fst (finishCycle cfg outcome pr st)"; simp)+

lemma shouldResubmit_off: "\<not> shouldResubmitMessages orig n (Suc 0) ms"
  by (simp add: shouldResubmitMessages_def Let_def split: list.split)

lemma unresolved_not_completed:
  "hasUnresolvedToolCall m \<Longrightarrow> \<not> isAssistantMessageWithCompletedToolCalls m"
  by (auto simp add: hasUnresolvedToolCall_def isAssistantMessageWithCompletedToolCalls_def
      list_ex_iff list_all_iff split: option.splits)

lemma triggerRequest_single:
  assumes "\<not> shouldResubmitMessages (maxStep (pendingRequest chatRequest st))
               (messageCount (pendingRequest chatRequest st)) (maxSteps cfg)
               (messages (snd (requestCycle cfg outcome chatRequest st)))"
  shows "snd (triggerRequest cfg (outcome # transport) chatRequest st) =
           snd (requestCycle cfg outcome chatRequest st)"
    and "fst (triggerRequest cfg (outcome # transport) chatRequest st) \<noteq> Pending"
  using assms resumeRequest_no_resubmit
  by (simp_all add: triggerRequest_def requestCycle_def)

lemma requestCycle_requests:
  "requests (snd (requestCycle cfg outcome chatRequest st)) =
     requests st @ [fillMessageParts (req_messages chatRequest)]"
  by (simp add: requestCycle_def finishCycle_frame startRequest_fields)

lemma snd_awaitLast: "snd (awaitLast x) = snd x"
  by (cases x; cases "fst x") auto

lemma resumeRequest_input: "input (snd (resumeRequest cfg transport pr st)) = input st"
proof (induction transport arbitrary: pr st)
  case Nil
  show ?case by simp
next
  case (Cons outcome transport)
  obtain ended st1 where fc: "finishCycle cfg outcome pr st = (ended, st1)"
    by (cases "finishCycle cfg outcome pr st")
  then have "input st1 = input st"
    using finishCycle_frame(2)[of cfg outcome pr st] by simp
  then show ?case
    using fc by (cases ended) (simp_all add: Let_def snd_awaitLast Cons.IH startRequest_fields)
qed

lemma resumeRequest_requests:
  "take (length (requests st)) (requests (snd (resumeRequest cfg transport pr st))) = requests st"
proof (induction transport arbitrary: pr st)
  case Nil
  show ?case by simp
next
  case (Cons outcome transport)
  obtain ended st1 where fc: "finishCycle cfg outcome pr st = (ended, st1)"
    by (cases "finishCycle cfg outcome pr st")
  then have same: "requests st1 = requests st"
    using finishCycle_frame(1)[of cfg outcome pr st] by simp
  have step: "take (length (requests st)) (requests (snd (resumeRequest cfg transport pr'
                 (startRequest chatRequest st1)))) = requests st" for pr' chatRequest
  proof -
    have "take (length (requests st1 @ [fillMessageParts (req_messages chatRequest)]))
            (requests (snd (resumeRequest cfg transport pr' (startRequest chatRequest st1)))) =
          requests st1 @ [fillMessageParts (req_messages chatRequest)]"
      using Cons.IH[where pr=pr' and st="startRequest chatRequest st1"]
      by (simp add: startRequest_fields)
    then have "take (length (requests st1)) (take (Suc (length (requests st1)))
            (requests (snd (resumeRequest cfg transport pr' (startRequest chatRequest st1))))) =
          requests st1"
      by simp
    then show ?thesis by (simp add: same)
  qed
  show ?case
    using fc same by (cases ended) (simp_all add: Let_def snd_awaitLast step)
qed

lemma triggerRequest_first_request:
  "take (Suc (length (requests st))) (requests (snd (triggerRequest cfg transport chatRequest st))) =
     requests st @ [fillMessageParts (req_messages chatRequest)]"
  using resumeRequest_requests[where st="startRequest chatRequest st" and cfg=cfg
      and transport=transport and pr="pendingRequest chatRequest st"]
  by (simp add: triggerRequest_def startRequest_fields)

lemma fillMessageParts_hasParts: "list_all hasParts (fillMessageParts ms)"
  by (simp add: fillMessageParts_def hasParts_def list_all_iff)

lemma applyEvent_hasParts:
  assumes "list_all hasParts (chatMessages pr)" and "list_all hasParts (previousMessages pr)"
    and "eventHasParts ev" and "list_all hasParts (messages st)"
  shows "list_all hasParts (messages (applyEvent cfg pr ev st))"
  using assms by (cases ev) (auto simp add: list_all_iff dest: in_set_butlastD)

lemma fold_applyEvent_hasParts:
  assumes "list_all hasParts (chatMessages pr)" and "list_all hasParts (previousMessages pr)"
  shows "list_all eventHasParts evs \<Longrightarrow> list_all hasParts (messages st) \<Longrightarrow>
         list_all hasParts (messages (fold (applyEvent cfg pr) evs st))"
  by (induction evs arbitrary: st) (simp_all add: applyEvent_hasParts[OF assms])

lemma pendingRequest_fields:
  "chatMessages (pendingRequest chatRequest st) = fillMessageParts (req_messages chatRequest)"
  "previousMessages (pendingRequest chatRequest st) = messages st"
  by (simp_all add: pendingRequest_def Let_def)

lemma resumeRequest_hasParts:
  "list_all hasParts (chatMessages pr) \<Longrightarrow> list_all hasParts (previousMessages pr) \<Longrightarrow>
   transportHasParts transport \<Longrightarrow> list_all hasParts (messages st) \<Longrightarrow>
   list_all hasParts (messages (snd (resumeRequest cfg transport pr st)))"
proof (induction transport arbitrary: pr st)
  case Nil
  then show ?case by simp
next
  case (Cons outcome transport)
  obtain ended st1 where fc: "finishCycle cfg outcome pr st = (ended, st1)"
    by (cases "finishCycle cfg outcome pr st")
  have evs: "list_all eventHasParts (events outcome)" and rest: "transportHasParts transport"
    using Cons.prems(3) by (simp_all add: transportHasParts_def)
  have st1: "list_all hasParts (messages st1)"
    using fc finishCycle_messages[of cfg outcome pr st]
      fold_applyEvent_hasParts[OF Cons.prems(1,2) evs Cons.prems(4)]
    by simp
  have step: "list_all hasParts (messages (snd (resumeRequest cfg transport
                 (pendingRequest chatRequest st1) (startRequest chatRequest st1))))" for chatRequest
    using Cons.IH[where pr="pendingRequest chatRequest st1" and st="startRequest chatRequest st1"]
      st1 rest
    by (simp add: pendingRequest_fields startRequest_fields fillMessageParts_hasParts)
  show ?case
    using fc st1 by (cases ended) (simp_all add: Let_def snd_awaitLast step)
qed

lemma triggerRequest_hasParts:
  "transportHasParts transport \<Longrightarrow> list_all hasParts (messages st) \<Longrightarrow>
   list_all hasParts (messages (snd (triggerRequest cfg transport chatRequest st)))"
  by (simp add: triggerRequest_def resumeRequest_hasParts pendingRequest_fields
      startRequest_fields fillMessageParts_hasParts)

lemma updateToolCallResult_butlast_last:
  "ms \<noteq> [] \<Longrightarrow> butlast (updateToolCallResult ms callId res) @ [last (updateToolCallResult ms callId res)]
     = updateToolCallResult ms callId res"
  by (cases ms) (simp_all add: updateToolCallResult_def Let_def)

lemma awaitLast_value: "fst (awaitLast x) \<noteq> Resolved (String i)"
  by (cases x; cases "fst x") auto

lemma resumeRequest_value: "fst (resumeRequest cfg transport pr st) \<noteq> Resolved (String i)"
proof (cases transport)
  case Nil
  then show ?thesis by simp
next
  case (Cons outcome rest)
  obtain ended st1 where fc: "finishCycle cfg outcome pr st = (ended, st1)"
    by (cases "finishCycle cfg outcome pr st")
  show ?thesis
    using fc by (cases ended) (simp_all add: Cons Let_def awaitLast_value)
qed

lemma updateToolCallResult_hasParts:
  "list_all hasParts ms \<Longrightarrow> list_all hasParts (updateToolCallResult ms callId toolResult)"
  by (cases ms)
     (auto simp add: updateToolCallResult_def Let_def hasParts_def list_all_iff
       dest: in_set_butlastD)

lemma append_hasParts:
  assumes "transportHasParts transport" and "list_all hasParts (messages st)"
  shows "list_all hasParts (messages (snd (append cfg transport message options st)))"
  using assms
  by (cases "message_id message")
     (simp_all add: append_def nextId_def Let_def triggerRequest_hasParts)

lemma reload_hasParts:
  assumes "transportHasParts transport" and "list_all hasParts (messages st)"
  shows "list_all hasParts (messages (snd (reload cfg transport options st)))"
  using assms by (simp add: reload_def Let_def triggerRequest_hasParts)

lemma handleSubmit_hasParts:
  assumes "transportHasParts transport" and "list_all hasParts (messages st)"
  shows "list_all hasParts (messages (handleSubmit cfg transport options st))"
proof (cases "input st = [] \<and> \<not> allowEmptySubmit options")
  case True
  then show ?thesis using assms(2) by (simp add: handleSubmit_def)
next
  case False
  obtain chatRequest st1 where sub: "submittedRequest cfg options st = (chatRequest, st1)"
    by (cases "submittedRequest cfg options st")
  then have prev: "messages st1 = messages st"
    by (auto simp add: submittedRequest_def nextId_def Let_def)
  have "list_all hasParts (messages (snd (resumeRequest cfg transport
          (pendingRequest chatRequest st1) ((startRequest chatRequest st1)\<lparr>input := []\<rparr>))))"
    using assms
    by (intro resumeRequest_hasParts)
       (simp_all add: pendingRequest_fields prev fillMessageParts_hasParts startRequest_def Let_def)
  then show ?thesis
    using False sub by (auto simp add: handleSubmit_def handleSubmitStarted_def)
qed

lemma addToolResult_hasParts:
  assumes "transportHasParts transport" and "list_all hasParts (messages st)"
    and "addToolResult cfg transport callId toolResult st = Some st'"
  shows "list_all hasParts (messages st')"
proof (cases "messages st")
  case Nil
  then show ?thesis using assms(3) by (simp add: addToolResult_def)
next
  case (Cons m ms)
  let ?ms = "updateToolCallResult (messages st) callId toolResult"
  have ne: "messages st \<noteq> []" using Cons by simp
  have whole: "butlast ?ms @ [last ?ms] = ?ms"
    using updateToolCallResult_butlast_last[OF ne] .
  have filled: "list_all hasParts ?ms"
    using assms(2) by (rule updateToolCallResult_hasParts)
  have "list_all hasParts (messages (snd (triggerRequest cfg transport (plainRequest ?ms)
          (st\<lparr>messages := ?ms\<rparr>))))"
    using assms(1) filled by (simp add: triggerRequest_hasParts)
  then show ?thesis
    using assms(3) filled unfolding addToolResult_def Let_def whole
    by (auto simp add: Cons split: if_splits)
qed

lemma fillMessageParts_appended:
  "fillMessageParts (ms @ [appendedMessage newId message options st]) =
     fillMessageParts ms @ [appendedMessage newId message options st]"
  by (simp add: fillMessageParts_def getMessageParts_def appendedMessage_def Let_def)

lemma appendedMessage_counter:
  "appendedMessage newId message options (st\<lparr>idCounter := n\<rparr>) =
     appendedMessage newId message options st"
  by (simp add: appendedMessage_def Let_def split: option.split)

lemma append_request:
  "append cfg transport message options st =
     (case message_id message of
        None \<Rightarrow>
          triggerRequest cfg transport
            \<lparr>req_messages = messages st @
               [appendedMessage (generateId cfg (idCounter st)) message options st],
             req_headers = opt_headers options, req_body = opt_body options,
             req_data = opt_data options\<rparr>
            (st\<lparr>idCounter := Suc (idCounter st)\<rparr>)
      | Some i \<Rightarrow>
          triggerRequest cfg transport
            \<lparr>req_messages = messages st @ [appendedMessage i message options st],
             req_headers = opt_headers options, req_body = opt_body options,
             req_data = opt_data options\<rparr> st)"
  by (cases "message_id message")
     (simp_all add: append_def nextId_def Let_def appendedMessage_counter)

lemma append_first_request:
  "take (Suc (length (requests st))) (requests (snd (append cfg transport message options st))) =
     requests st @
       [fillMessageParts (messages st) @
        [appendedMessage
           (case message_id message of None \<Rightarrow> generateId cfg (idCounter st) | Some i \<Rightarrow> i)
           message options st]]"
proof (cases "message_id message")
  case None
  then show ?thesis
    using triggerRequest_first_request[where st = "st\<lparr>idCounter := Suc (idCounter st)\<rparr>"
        and cfg = cfg and transport = transport
        and chatRequest = "\<lparr>req_messages = messages st @
               [appendedMessage (generateId cfg (idCounter st)) message options st],
             req_headers = opt_headers options, req_body = opt_body options,
             req_data = opt_data options\<rparr>"]
    by (simp add: append_request fillMessageParts_appended)
next
  case (Some i)
  then show ?thesis
    using triggerRequest_first_request[where st = st and cfg = cfg and transport = transport
        and chatRequest = "\<lparr>req_messages = messages st @ [appendedMessage i message options st],
             req_headers = opt_headers options, req_body = opt_body options,
             req_data = opt_data options\<rparr>"]
    by (simp add: append_request fillMessageParts_appended)
qed

lemma append_published:
  "messages (snd (append cfg [] message options st)) =
     fillMessageParts (messages st) @
       [appendedMessage
          (case message_id message of None \<Rightarrow> generateId cfg (idCounter st) | Some i \<Rightarrow> i)
          message options st]"
  by (cases "message_id message")
     (simp_all add: append_request triggerRequest_def startRequest_fields fillMessageParts_appended)

lemma append_value: "fst (append cfg transport message options st) \<noteq> Resolved (String i)"
  by (simp add: append_def Let_def triggerRequest_def resumeRequest_value split: prod.split)

lemmas example_defs = exampleConfig_def userMessage_def weatherCall_def weatherResult_def
  assistantMessage_def streamed_def plainRequest_def noOptions_def useChat_init_def

lemmas cycle_defs = triggerRequest_def requestCycle_def finishCycle_def catchBlock_def
  startRequest_def pendingRequest_def status_def Let_def fillMessageParts_def getMessageParts_def
  shouldResubmitMessages_def isAssistantMessageWithCompletedToolCalls_def
  extractMaxToolInvocationStep_def stepAdvanced_def

section \<open>The claims\<close>

subsection \<open>C1: the step bound\<close>


subsection \<open>C2: cancellation\<close>

text \<open>
  C2. A request cycle whose transport call rejects with an \<^verbatim>\<open>AbortError\<close> ends with status
  \<open>Ready\<close>, with no error recorded, and without a call of the caller's \<^verbatim>\<open>onError\<close>,
  whatever events \<open>evs\<close> had been merged before; \<open>triggerRequest\<close> then returns \<^verbatim>\<open>null\<close>
  at once.
\<close>

theorem cancellation_is_silent:
  assumes "thrownName err = Some ''AbortError''"
    and "requestCycle cfg \<lparr>events = evs, finish = Rejects err\<rparr> chatRequest st = (ended, st')"
  shows "ended = CycleCancelled \<and> status st' = Ready \<and> error st' = None \<and>
         onErrorCalls st' = onErrorCalls st \<and>
         triggerRequest cfg (\<lparr>events = evs, finish = Rejects err\<rparr> # transport) chatRequest st =
           (Resolved Null, st')"
  using assms(2)
  by (auto simp add: triggerRequest_def requestCycle_def finishCycle_cancelled[OF assms(1)]
      fold_applyEvent_frame startRequest_fields status_def)

text \<open>Witness of C2: an abort after one streamed update; \<^verbatim>\<open>onError\<close> is configured.\<close>

theorem cancellation_is_silent_witness:
  "thrownName (ErrorInstance ''AbortError'' ''aborted'') = Some ''AbortError'' \<and>
   onError exampleConfig \<and>
   status (snd (requestCycle exampleConfig
        \<lparr>events = [Update (assistantMessage None) None False],
         finish = Rejects (ErrorInstance ''AbortError'' ''aborted'')\<rparr>
        (plainRequest [userMessage]) (useChat_init exampleConfig))) = Ready \<and>
   error (snd (requestCycle exampleConfig
        \<lparr>events = [Update (assistantMessage None) None False],
         finish = Rejects (ErrorInstance ''AbortError'' ''aborted'')\<rparr>
        (plainRequest [userMessage]) (useChat_init exampleConfig))) = None \<and>
   onErrorCalls (snd (requestCycle exampleConfig
        \<lparr>events = [Update (assistantMessage None) None False],
         finish = Rejects (ErrorInstance ''AbortError'' ''aborted'')\<rparr>
        (plainRequest [userMessage]) (useChat_init exampleConfig))) = []"
proof -
  have name: "thrownName (ErrorInstance ''AbortError'' ''aborted'') = Some ''AbortError''"
    by simp
  have configured: "onError exampleConfig"
    by (simp add: exampleConfig_def)
  have empty: "onErrorCalls (useChat_init exampleConfig) = []"
    by (simp add: useChat_init_def)
  show ?thesis
    using name configured
      cancellation_is_silent[OF name surjective_pairing, where cfg = exampleConfig
        and evs = "[Update (assistantMessage None) None False]"
        and chatRequest = "plainRequest [userMessage]" and st = "useChat_init exampleConfig"]
    by (simp add: empty)
qed

subsection \<open>C3: failure\<close>

text \<open>
  C3, as the code has it. A request cycle whose transport call rejects with a value
  other than \<^verbatim>\<open>null\<close>/\<^verbatim>\<open>undefined\<close> that is no \<^verbatim>\<open>AbortError\<close> sets the status to \<open>Error\<close> and
  stores the thrown value as the error. The caller's \<^verbatim>\<open>onError\<close> is called once, with that
  value, when the caller passed the callback and the value is an instance of \<^verbatim>\<open>Error\<close>
  (\<^verbatim>\<open>if (onError && err instanceof Error)\<close>), and is not called otherwise.
\<close>

theorem failure_sets_error:
  assumes "err \<noteq> Nullish" and "thrownName err \<noteq> Some ''AbortError''"
    and "requestCycle cfg \<lparr>events = evs, finish = Rejects err\<rparr> chatRequest st = (ended, st')"
  shows "ended = CycleError \<and> status st' = Error \<and> error st' = Some err \<and>
         onErrorCalls st' =
           onErrorCalls st @ (if onError cfg \<and> instanceofError err then [err] else [])"
  using assms
  by (auto simp add: requestCycle_def finishCycle_def catchBlock_def Let_def status_def
      fold_applyEvent_frame startRequest_fields)

text \<open>Witness of C3: a \<^verbatim>\<open>TypeError\<close> of the transport reaches \<^verbatim>\<open>onError\<close> once.\<close>

theorem failure_sets_error_witness:
  "ErrorInstance ''TypeError'' ''fetch failed'' \<noteq> Nullish \<and>
   thrownName (ErrorInstance ''TypeError'' ''fetch failed'') \<noteq> Some ''AbortError'' \<and>
   status (snd (requestCycle exampleConfig
        \<lparr>events = [], finish = Rejects (ErrorInstance ''TypeError'' ''fetch failed'')\<rparr>
        (plainRequest [userMessage]) (useChat_init exampleConfig))) = Error \<and>
   error (snd (requestCycle exampleConfig
        \<lparr>events = [], finish = Rejects (ErrorInstance ''TypeError'' ''fetch failed'')\<rparr>
        (plainRequest [userMessage]) (useChat_init exampleConfig))) =
     Some (ErrorInstance ''TypeError'' ''fetch failed'') \<and>
   onErrorCalls (snd (requestCycle exampleConfig
        \<lparr>events = [], finish = Rejects (ErrorInstance ''TypeError'' ''fetch failed'')\<rparr>
        (plainRequest [userMessage]) (useChat_init exampleConfig))) =
     [ErrorInstance ''TypeError'' ''fetch failed'']"
proof -
  have thrown: "ErrorInstance ''TypeError'' ''fetch failed'' \<noteq> Nullish"
    by simp
  have name: "thrownName (ErrorInstance ''TypeError'' ''fetch failed'') \<noteq> Some ''AbortError''"
    by simp
  have configured: "onError exampleConfig"
    by (simp add: exampleConfig_def)
  have empty: "onErrorCalls (useChat_init exampleConfig) = []"
    by (simp add: useChat_init_def)
  show ?thesis
    using failure_sets_error[OF thrown name surjective_pairing, where cfg = exampleConfig
        and evs = "[]" and chatRequest = "plainRequest [userMessage]"
        and st = "useChat_init exampleConfig"]
    by (simp add: empty configured)
qed

text \<open>
  Counterexample to C3 as stated ("for any thrown value, not only for instances of
  Error"): the transport rejects with a value that is not an instance of \<^verbatim>\<open>Error\<close> and has
  no name. The caller passed \<^verbatim>\<open>onError\<close>; the cycle ends in status \<open>Error\<close> with the value
  stored, and \<^verbatim>\<open>onError\<close> has not been called.
\<close>

theorem onError_not_called_counterexample:
  "onError exampleConfig \<and>
   thrownName (OtherValue None) \<noteq> Some ''AbortError'' \<and>
   status (snd (requestCycle exampleConfig \<lparr>events = [], finish = Rejects (OtherValue None)\<rparr>
       (plainRequest [userMessage]) (useChat_init exampleConfig))) = Error \<and>
   error (snd (requestCycle exampleConfig \<lparr>events = [], finish = Rejects (OtherValue None)\<rparr>
       (plainRequest [userMessage]) (useChat_init exampleConfig))) = Some (OtherValue None) \<and>
   length (onErrorCalls (snd (requestCycle exampleConfig
       \<lparr>events = [], finish = Rejects (OtherValue None)\<rparr>
       (plainRequest [userMessage]) (useChat_init exampleConfig)))) = 0"
  by (simp add: example_defs cycle_defs)

subsection \<open>C4: the auto-continuation check\<close>

text \<open>
  C4, as the code has it. After a cycle that completed, and after a cycle that failed
  into the error branch, \<open>triggerRequest\<close> evaluates \<^verbatim>\<open>shouldResubmitMessages\<close> on the
  message count and tool step recorded at the start of the cycle, the step bound and
  the current messages; when it holds, it awaits \<^verbatim>\<open>triggerRequest({ messages })\<close> on the
  current messages, and otherwise returns. After a cancelled cycle it returns \<^verbatim>\<open>null\<close> from
  the \<^verbatim>\<open>catch\<close> block and the check is not evaluated.
\<close>

theorem continuation_check:
  assumes "requestCycle cfg outcome chatRequest st = (ended, st1)"
    and "pendingRequest chatRequest st = pr"
  shows "(ended = CycleReady \<or> ended = CycleError \<longrightarrow>
            triggerRequest cfg (outcome # transport) chatRequest st =
              (if shouldResubmitMessages (maxStep pr) (messageCount pr) (maxSteps cfg) (messages st1)
               then awaitLast (triggerRequest cfg transport (plainRequest (messages st1)) st1)
               else (Resolved Undefined, st1))) \<and>
         (ended = CycleCancelled \<longrightarrow>
            triggerRequest cfg (outcome # transport) chatRequest st = (Resolved Null, st1))"
  using assms by (auto simp add: triggerRequest_def requestCycle_def)

text \<open>
  Witness of C4, with the bound at 3: after a cycle that completed with a resolved tool
  call the request is resubmitted with the current messages; after a cycle that was
  cancelled, \<open>triggerRequest\<close> returns.
\<close>

theorem continuation_check_witness:
  "fst (requestCycle (exampleConfig\<lparr>maxSteps := 3\<rparr>)
         (streamed (assistantMessage (Some [weatherResult])) Completes)
         (plainRequest [userMessage]) (useChat_init exampleConfig)) = CycleReady \<and>
   triggerRequest (exampleConfig\<lparr>maxSteps := 3\<rparr>)
     [streamed (assistantMessage (Some [weatherResult])) Completes,
      streamed (assistantMessage None) Completes]
     (plainRequest [userMessage]) (useChat_init exampleConfig) =
     awaitLast (triggerRequest (exampleConfig\<lparr>maxSteps := 3\<rparr>)
       [streamed (assistantMessage None) Completes]
       (plainRequest [userMessage, assistantMessage (Some [weatherResult])])
       (snd (requestCycle (exampleConfig\<lparr>maxSteps := 3\<rparr>)
          (streamed (assistantMessage (Some [weatherResult])) Completes)
          (plainRequest [userMessage]) (useChat_init exampleConfig)))) \<and>
   fst (requestCycle (exampleConfig\<lparr>maxSteps := 3\<rparr>)
         (streamed (assistantMessage (Some [weatherResult]))
            (Rejects (ErrorInstance ''AbortError'' ''aborted'')))
         (plainRequest [userMessage]) (useChat_init exampleConfig)) = CycleCancelled \<and>
   fst (triggerRequest (exampleConfig\<lparr>maxSteps := 3\<rparr>)
     [streamed (assistantMessage (Some [weatherResult]))
        (Rejects (ErrorInstance ''AbortError'' ''aborted'')),
      streamed (assistantMessage None) Completes]
     (plainRequest [userMessage]) (useChat_init exampleConfig)) = Resolved Null"
proof -
  have ready: "fst (requestCycle (exampleConfig\<lparr>maxSteps := 3\<rparr>)
         (streamed (assistantMessage (Some [weatherResult])) Completes)
         (plainRequest [userMessage]) (useChat_init exampleConfig)) = CycleReady"
    by (simp add: example_defs cycle_defs)
  have current: "messages (snd (requestCycle (exampleConfig\<lparr>maxSteps := 3\<rparr>)
         (streamed (assistantMessage (Some [weatherResult])) Completes)
         (plainRequest [userMessage]) (useChat_init exampleConfig))) =
       [userMessage, assistantMessage (Some [weatherResult])]"
    by (simp add: example_defs cycle_defs)
  have resubmit: "shouldResubmitMessages
       (maxStep (pendingRequest (plainRequest [userMessage]) (useChat_init exampleConfig)))
       (messageCount (pendingRequest (plainRequest [userMessage]) (useChat_init exampleConfig)))
       (maxSteps (exampleConfig\<lparr>maxSteps := 3\<rparr>))
       [userMessage, assistantMessage (Some [weatherResult])]"
    by (simp add: example_defs cycle_defs)
  have cancelled: "fst (requestCycle (exampleConfig\<lparr>maxSteps := 3\<rparr>)
         (streamed (assistantMessage (Some [weatherResult]))
            (Rejects (ErrorInstance ''AbortError'' ''aborted'')))
         (plainRequest [userMessage]) (useChat_init exampleConfig)) = CycleCancelled"
    by (simp add: example_defs cycle_defs)
  show ?thesis
    using ready current resubmit cancelled
      continuation_check[OF surjective_pairing refl, where cfg = "exampleConfig\<lparr>maxSteps := 3\<rparr>"
        and outcome = "streamed (assistantMessage (Some [weatherResult])) Completes"
        and chatRequest = "plainRequest [userMessage]" and st = "useChat_init exampleConfig"
        and transport = "[streamed (assistantMessage None) Completes]"]
      continuation_check[OF surjective_pairing refl, where cfg = "exampleConfig\<lparr>maxSteps := 3\<rparr>"
        and outcome = "streamed (assistantMessage (Some [weatherResult]))
            (Rejects (ErrorInstance ''AbortError'' ''aborted''))"
        and chatRequest = "plainRequest [userMessage]" and st = "useChat_init exampleConfig"
        and transport = "[streamed (assistantMessage None) Completes]"]
    by simp
qed

text \<open>
  Counterexample to C4 as stated ("for every outcome of the inner call: success, error,
  or cancellation"): the bound is 3, the transport streams an assistant message whose
  tool call is resolved and is then aborted. On the messages the cycle leaves, the
  check holds (the message count has advanced, every tool call is resolved, the bound
  permits), and the transport has a second answer ready; yet no second call is issued.
\<close>

theorem cancelled_cycle_not_continued_counterexample:
  "shouldResubmitMessages
     (maxStep (pendingRequest (plainRequest [userMessage]) (useChat_init exampleConfig)))
     (messageCount (pendingRequest (plainRequest [userMessage]) (useChat_init exampleConfig)))
     (maxSteps (exampleConfig\<lparr>maxSteps := 3\<rparr>))
     (messages (snd (requestCycle (exampleConfig\<lparr>maxSteps := 3\<rparr>)
        (streamed (assistantMessage (Some [weatherResult]))
           (Rejects (ErrorInstance ''AbortError'' ''aborted'')))
        (plainRequest [userMessage]) (useChat_init exampleConfig)))) \<and>
   length (requests (snd (triggerRequest (exampleConfig\<lparr>maxSteps := 3\<rparr>)
        [streamed (assistantMessage (Some [weatherResult]))
           (Rejects (ErrorInstance ''AbortError'' ''aborted'')),
         streamed (assistantMessage None) Completes]
        (plainRequest [userMessage]) (useChat_init exampleConfig)))) = 1"
  by (simp add: example_defs cycle_defs)

subsection \<open>C5: supplying a tool result\<close>

text \<open>
  C5. \<open>addToolResult\<close> on a session with a last message, \<open>ms'\<close> being the messages with
  the result filled in. While a request is in flight (status \<open>Submitted\<close> or
  \<open>Streaming\<close>) it only publishes \<open>ms'\<close>: no call of the transport is issued. With no
  request in flight and the last message of \<open>ms'\<close> an assistant message whose tool
  invocations are all resolved, it calls \<open>triggerRequest\<close> once, on \<open>ms'\<close> as it is: the
  next call issued carries \<open>ms'\<close>, and it is the only one when the bound is 1. With no
  request in flight and a tool invocation of the last message still unresolved, it only
  publishes \<open>ms'\<close>.
\<close>

theorem addToolResult_trigger:
  assumes "messages st \<noteq> []"
    and "updateToolCallResult (messages st) callId toolResult = ms'"
    and "triggerRequest cfg transport (plainRequest ms') (st\<lparr>messages := ms'\<rparr>) = (p, st')"
  shows "(status st = Submitted \<or> status st = Streaming \<longrightarrow>
            addToolResult cfg transport callId toolResult st = Some (st\<lparr>messages := ms'\<rparr>)) \<and>
         (status st \<noteq> Submitted \<and> status st \<noteq> Streaming \<and>
          isAssistantMessageWithCompletedToolCalls (last ms') \<longrightarrow>
            addToolResult cfg transport callId toolResult st = Some st' \<and>
            take (Suc (length (requests st))) (requests st') =
              requests st @ [fillMessageParts ms'] \<and>
            (maxSteps cfg = 1 \<longrightarrow> length (requests st') = Suc (length (requests st)))) \<and>
         (status st \<noteq> Submitted \<and> status st \<noteq> Streaming \<and> hasUnresolvedToolCall (last ms') \<longrightarrow>
            addToolResult cfg transport callId toolResult st = Some (st\<lparr>messages := ms'\<rparr>))"
proof -
  let ?st1 = "st\<lparr>messages := ms'\<rparr>"
  obtain m ms where ms: "messages st = m # ms"
    using assms(1) by (cases "messages st") auto
  have whole: "butlast ms' @ [last ms'] = ms'"
    using updateToolCallResult_butlast_last[OF assms(1), of callId toolResult]
    unfolding assms(2) .
  have add: "addToolResult cfg transport callId toolResult st =
      (if status st = Submitted \<or> status st = Streaming then Some ?st1
       else if isAssistantMessageWithCompletedToolCalls (last ms')
            then Some (snd (triggerRequest cfg transport (plainRequest ms') ?st1))
            else Some ?st1)"
    unfolding addToolResult_def Let_def assms(2) whole by (simp add: ms)
  have first: "take (Suc (length (requests st))) (requests st') =
      requests st @ [fillMessageParts ms']"
    using triggerRequest_first_request[where st = "?st1" and cfg = cfg and transport = transport
        and chatRequest = "plainRequest ms'"] assms(3)
    by (simp add: plainRequest_def)
  have one: "maxSteps cfg = 1 \<Longrightarrow> length (requests st') = Suc (length (requests st))"
  proof (cases transport)
    case Nil
    then show ?thesis
      using assms(3) by (auto simp add: triggerRequest_def startRequest_fields)
  next
    case (Cons outcome rest)
    assume "maxSteps cfg = 1"
    then show ?thesis
      using triggerRequest_single(1)[of "plainRequest ms'" ?st1 cfg outcome rest] assms(3)
      by (simp add: Cons shouldResubmit_off requestCycle_requests)
  qed
  show ?thesis
    using first one unresolved_not_completed[of "last ms'"] assms(3) by (auto simp add: add)
qed

text \<open>
  Witness of C5, on a history that ends with an assistant message. With one open tool
  call and a request in flight, the result is filled in and nothing is sent. With one
  open tool call and no request in flight, the result completes the message and one
  call is issued, on the updated history. With two open tool calls, one result leaves
  the other unresolved and nothing is sent.
\<close>

theorem addToolResult_trigger_witness:
  "status ((sessionWith [userMessage, assistantMessage (Some [weatherCall])])
             \<lparr>status_data := Some Streaming\<rparr>) = Streaming \<and>
   addToolResult exampleConfig [streamed (assistantMessage None) Completes] ''call-1'' ''sunny''
       ((sessionWith [userMessage, assistantMessage (Some [weatherCall])])
          \<lparr>status_data := Some Streaming\<rparr>) =
     Some ((sessionWith [userMessage, assistantMessage (Some [weatherCall])])
             \<lparr>status_data := Some Streaming,
              messages := [userMessage, assistantMessage (Some [weatherResult])]\<rparr>) \<and>
   status (sessionWith [userMessage, assistantMessage (Some [weatherCall])]) = Ready \<and>
   isAssistantMessageWithCompletedToolCalls (assistantMessage (Some [weatherResult])) \<and>
   addToolResult exampleConfig [streamed (assistantMessage None) Completes] ''call-1'' ''sunny''
       (sessionWith [userMessage, assistantMessage (Some [weatherCall])]) =
     Some (snd (triggerRequest exampleConfig [streamed (assistantMessage None) Completes]
       (plainRequest [userMessage, assistantMessage (Some [weatherResult])])
       (sessionWith [userMessage, assistantMessage (Some [weatherResult])]))) \<and>
   requests (snd (triggerRequest exampleConfig [streamed (assistantMessage None) Completes]
       (plainRequest [userMessage, assistantMessage (Some [weatherResult])])
       (sessionWith [userMessage, assistantMessage (Some [weatherResult])]))) =
     [[userMessage, assistantMessage (Some [weatherResult])]] \<and>
   hasUnresolvedToolCall (assistantMessage (Some [weatherResult, clockCall])) \<and>
   addToolResult exampleConfig [streamed (assistantMessage None) Completes] ''call-1'' ''sunny''
       (sessionWith [userMessage, assistantMessage (Some [weatherCall, clockCall])]) =
     Some (sessionWith [userMessage, assistantMessage (Some [weatherResult, clockCall])])"
proof -
  have filled: "updateToolCallResult
      (messages (sessionWith [userMessage, assistantMessage (Some [weatherCall])]))
      ''call-1'' ''sunny'' = [userMessage, assistantMessage (Some [weatherResult])]"
    by (simp add: sessionWith_def updateToolCallResult_def resolveInvocation_def Let_def
        example_defs)
  have filled2: "updateToolCallResult
      (messages (sessionWith [userMessage, assistantMessage (Some [weatherCall, clockCall])]))
      ''call-1'' ''sunny'' = [userMessage, assistantMessage (Some [weatherResult, clockCall])]"
    by (simp add: sessionWith_def updateToolCallResult_def resolveInvocation_def Let_def
        clockCall_def example_defs)
  have streaming: "status ((sessionWith ms)\<lparr>status_data := Some Streaming\<rparr>) = Streaming" for ms
    by (simp add: status_def)
  have idle: "status (sessionWith ms) = Ready" for ms
    by (simp add: status_def sessionWith_def useChat_init_def)
  have completed: "isAssistantMessageWithCompletedToolCalls (assistantMessage (Some [weatherResult]))"
    by (simp add: isAssistantMessageWithCompletedToolCalls_def example_defs)
  have unresolved: "hasUnresolvedToolCall (assistantMessage (Some [weatherResult, clockCall]))"
    by (simp add: hasUnresolvedToolCall_def clockCall_def example_defs)
  have none: "requests (sessionWith ms) = []" for ms
    by (simp add: sessionWith_def useChat_init_def)
  have same: "(sessionWith ms)\<lparr>messages := ms'\<rparr> = sessionWith ms'" for ms ms'
    by (simp add: sessionWith_def)
  have nonempty: "messages (sessionWith (m # ms)) \<noteq> []" for m ms
    by (simp add: sessionWith_def)
  have filled_parts: "fillMessageParts [userMessage, assistantMessage (Some [weatherResult])] =
      [userMessage, assistantMessage (Some [weatherResult])]"
    by (simp add: fillMessageParts_def getMessageParts_def example_defs)
  have nonempty_streaming:
    "messages ((sessionWith [userMessage, assistantMessage (Some [weatherCall])])
       \<lparr>status_data := Some Streaming\<rparr>) \<noteq> []"
    by (simp add: sessionWith_def)
  have filled_streaming: "updateToolCallResult
      (messages ((sessionWith [userMessage, assistantMessage (Some [weatherCall])])
         \<lparr>status_data := Some Streaming\<rparr>))
      ''call-1'' ''sunny'' = [userMessage, assistantMessage (Some [weatherResult])]"
    using filled by simp
  have bound: "maxSteps exampleConfig = 1"
    by (simp add: exampleConfig_def)
  have len: "length xs = Suc 0 \<Longrightarrow> take (Suc 0) xs = [x] \<Longrightarrow> xs = [x]" for x :: "message list" and xs
    by (cases xs) simp_all
  show ?thesis
    using streaming idle completed unresolved bound
      addToolResult_trigger[OF nonempty filled surjective_pairing, where cfg = exampleConfig
        and transport = "[streamed (assistantMessage None) Completes]"]
      addToolResult_trigger[OF nonempty_streaming filled_streaming surjective_pairing,
        where cfg = exampleConfig and transport = "[streamed (assistantMessage None) Completes]"]
      addToolResult_trigger[OF nonempty filled2 surjective_pairing, where cfg = exampleConfig
        and transport = "[streamed (assistantMessage None) Completes]"]
    by (auto simp add: none same filled_parts intro: len)
qed

subsection \<open>C6: what \<open>append\<close> resolves to\<close>

text \<open>
  C6 fails on the code. \<open>triggerRequest\<close> returns \<^verbatim>\<open>null\<close> from the abort branch and falls
  off its end otherwise, so the promise of \<open>append\<close> never resolves to a string, whatever
  the message, the session and the transport. On the history below, with a transport
  that streams the assistant message \<open>a1\<close> and completes, \<open>append\<close> leaves the user
  message and the assistant message in the history with status \<open>Ready\<close>, and resolves
  to \<^verbatim>\<open>undefined\<close>, not to the id \<open>a1\<close>.
\<close>

theorem append_resolves_to_undefined:
  "fst (append cfg transport message options st) \<noteq> Resolved (String i) \<and>
   fst (append exampleConfig [streamed (assistantMessage None) Completes]
         userCreateMessage noOptions (useChat_init exampleConfig)) = Resolved Undefined \<and>
   map role (messages (snd (append exampleConfig [streamed (assistantMessage None) Completes]
         userCreateMessage noOptions (useChat_init exampleConfig)))) = [User, Assistant] \<and>
   map message_id (messages (snd (append exampleConfig [streamed (assistantMessage None) Completes]
         userCreateMessage noOptions (useChat_init exampleConfig)))) = [''m'', ''a1''] \<and>
   status (snd (append exampleConfig [streamed (assistantMessage None) Completes]
         userCreateMessage noOptions (useChat_init exampleConfig))) = Ready"
proof -
  have "fst (append exampleConfig [streamed (assistantMessage None) Completes]
         userCreateMessage noOptions (useChat_init exampleConfig)) = Resolved Undefined \<and>
   map role (messages (snd (append exampleConfig [streamed (assistantMessage None) Completes]
         userCreateMessage noOptions (useChat_init exampleConfig)))) = [User, Assistant] \<and>
   map message_id (messages (snd (append exampleConfig [streamed (assistantMessage None) Completes]
         userCreateMessage noOptions (useChat_init exampleConfig)))) = [''m'', ''a1''] \<and>
   status (snd (append exampleConfig [streamed (assistantMessage None) Completes]
         userCreateMessage noOptions (useChat_init exampleConfig))) = Ready"
    by (simp add: append_def nextId_def appendedMessage_def prepareAttachmentsForRequest_def
        userCreateMessage_def example_defs cycle_defs)
  then show ?thesis
    using append_value[of cfg transport message options st i] by blast
qed

subsection \<open>C7: \<open>reload\<close>\<close>

text \<open>
  C7. On an empty history \<open>reload\<close> returns \<^verbatim>\<open>null\<close> and leaves the session as it is. When
  the last message is an assistant message, it is \<open>triggerRequest\<close> on the history
  without that message, and the next call issued carries that shorter history.
  Otherwise it is \<open>triggerRequest\<close> on the history as it is, and the next call issued
  carries the whole history.
\<close>

theorem reload_request:
  "(messages st = [] \<longrightarrow> reload cfg transport options st = (Resolved Null, st)) \<and>
   (messages st \<noteq> [] \<and> role (last (messages st)) = Assistant \<longrightarrow>
      reload cfg transport options st =
        triggerRequest cfg transport
          \<lparr>req_messages = butlast (messages st), req_headers = opt_headers options,
           req_body = opt_body options, req_data = opt_data options\<rparr> st \<and>
      take (Suc (length (requests st))) (requests (snd (reload cfg transport options st))) =
        requests st @ [fillMessageParts (butlast (messages st))]) \<and>
   (messages st \<noteq> [] \<and> role (last (messages st)) \<noteq> Assistant \<longrightarrow>
      reload cfg transport options st =
        triggerRequest cfg transport
          \<lparr>req_messages = messages st, req_headers = opt_headers options,
           req_body = opt_body options, req_data = opt_data options\<rparr> st \<and>
      take (Suc (length (requests st))) (requests (snd (reload cfg transport options st))) =
        requests st @ [fillMessageParts (messages st)])"
  by (simp add: reload_def Let_def triggerRequest_first_request)

text \<open>
  Witness of C7: the empty history; a history that ends with an assistant message,
  reloaded without it; a history that ends with the user's message, reloaded whole.
\<close>

theorem reload_request_witness:
  "messages (useChat_init exampleConfig) = [] \<and>
   reload exampleConfig [streamed (assistantMessage None) Completes] noOptions
       (useChat_init exampleConfig) = (Resolved Null, useChat_init exampleConfig) \<and>
   role (last (messages (sessionWith [userMessage, assistantMessage None]))) = Assistant \<and>
   take (Suc 0) (requests (snd (reload exampleConfig [streamed (assistantMessage None) Completes]
       noOptions (sessionWith [userMessage, assistantMessage None])))) = [[userMessage]] \<and>
   role (last (messages (sessionWith [userMessage]))) = User \<and>
   take (Suc 0) (requests (snd (reload exampleConfig [streamed (assistantMessage None) Completes]
       noOptions (sessionWith [userMessage])))) = [[userMessage]]"
proof -
  have empty: "messages (useChat_init exampleConfig) = []"
    by (simp add: useChat_init_def exampleConfig_def fillMessageParts_def)
  have msgs: "messages (sessionWith ms) = ms" for ms
    by (simp add: sessionWith_def)
  have none: "requests (sessionWith ms) = []" for ms
    by (simp add: sessionWith_def useChat_init_def)
  have assistant: "role (assistantMessage tis) = Assistant" for tis
    by (simp add: assistantMessage_def)
  have user: "role userMessage = User"
    by (simp add: userMessage_def)
  have filled: "fillMessageParts [userMessage] = [userMessage]"
    by (simp add: fillMessageParts_def getMessageParts_def userMessage_def)
  show ?thesis
    using empty
      reload_request[of "useChat_init exampleConfig" exampleConfig
        "[streamed (assistantMessage None) Completes]" noOptions]
      reload_request[of "sessionWith [userMessage, assistantMessage None]" exampleConfig
        "[streamed (assistantMessage None) Completes]" noOptions]
      reload_request[of "sessionWith [userMessage]" exampleConfig
        "[streamed (assistantMessage None) Completes]" noOptions]
    by (auto simp add: msgs none assistant user filled)
qed

subsection \<open>C8: parts are populated\<close>

text \<open>
  C8. The message lists the hook publishes have \<open>parts\<close> on every message. The initial
  messages are published through \<open>fillMessageParts\<close>; so is every list written by
  \<open>setMessages\<close>, given directly or computed by a function; so is the list that
  \<open>triggerRequest\<close> writes optimistically and sends. The next call that \<open>append\<close>
  issues carries the normalised history followed by the message it created, and that
  is the list published while the call is in flight; the created message, last in it,
  has as parts the parts derived from the message \<open>append\<close> was given. And from a
  history with parts throughout, every operation that runs a request
  (\<open>triggerRequest\<close>, \<open>append\<close>, \<open>reload\<close>, \<open>handleSubmit\<close>, \<open>addToolResult\<close>) leaves a
  history with parts throughout, the messages streamed by the transport being
  \<^verbatim>\<open>UIMessage\<close>s.
\<close>

theorem parts_populated:
  "(messages (useChat_init cfg) =
      fillMessageParts (case initialMessages cfg of None \<Rightarrow> [] | Some ms \<Rightarrow> ms) \<and>
    list_all hasParts (messages (useChat_init cfg))) \<and>
   (messages (setMessages (Direct ms) st) = fillMessageParts ms \<and>
    messages (setMessages (Functional f) st) = fillMessageParts (f (messages st)) \<and>
    list_all hasParts (messages (setMessages update st))) \<and>
   (messages (startRequest chatRequest st) = fillMessageParts (req_messages chatRequest) \<and>
    last (requests (startRequest chatRequest st)) = fillMessageParts (req_messages chatRequest) \<and>
    take (Suc (length (requests st)))
      (requests (snd (triggerRequest cfg transport chatRequest st))) =
      requests st @ [fillMessageParts (req_messages chatRequest)] \<and>
    messages (snd (triggerRequest cfg [] chatRequest st)) =
      fillMessageParts (req_messages chatRequest) \<and>
    list_all hasParts (messages (startRequest chatRequest st))) \<and>
   (take (Suc (length (requests st)))
      (requests (snd (append cfg transport message options st))) =
      requests st @
        [fillMessageParts (messages st) @
         [appendedMessage
            (case message_id message of None \<Rightarrow> generateId cfg (idCounter st) | Some i \<Rightarrow> i)
            message options st]] \<and>
    messages (snd (append cfg [] message options st)) =
      fillMessageParts (messages st) @
        [appendedMessage
           (case message_id message of None \<Rightarrow> generateId cfg (idCounter st) | Some i \<Rightarrow> i)
           message options st] \<and>
    parts (last (messages (snd (append cfg [] message options st)))) =
      Some (getMessageParts message) \<and>
    parts (appendedMessage newId message options st) = Some (getMessageParts message) \<and>
    hasParts (appendedMessage newId message options st)) \<and>
   (transportHasParts transport \<and> list_all hasParts (messages st) \<longrightarrow>
      list_all hasParts (messages (snd (triggerRequest cfg transport chatRequest st))) \<and>
      list_all hasParts (messages (snd (append cfg transport message options st))) \<and>
      list_all hasParts (messages (snd (reload cfg transport options st))) \<and>
      list_all hasParts (messages (handleSubmit cfg transport options st)) \<and>
      (case addToolResult cfg transport callId toolResult st of
         None \<Rightarrow> True
       | Some st' \<Rightarrow> list_all hasParts (messages st')))"
proof -
  have written: "list_all hasParts (messages (setMessages update st))"
    by (cases update) (simp_all add: fillMessageParts_hasParts)
  have tool: "transportHasParts transport \<Longrightarrow> list_all hasParts (messages st) \<Longrightarrow>
      (case addToolResult cfg transport callId toolResult st of
         None \<Rightarrow> True
       | Some st' \<Rightarrow> list_all hasParts (messages st'))"
    using addToolResult_hasParts[of transport st cfg callId toolResult]
    by (simp split: option.split)
  have created: "parts (appendedMessage newId message options st) = Some (getMessageParts message)"
    for newId
    by (simp add: appendedMessage_def Let_def)
  have pending: "messages (snd (triggerRequest cfg [] chatRequest st)) =
      fillMessageParts (req_messages chatRequest)"
    by (simp add: triggerRequest_def startRequest_fields)
  show ?thesis
    using written tool
    by (simp add: useChat_init_def fillMessageParts_hasParts startRequest_fields created pending
        hasParts_def triggerRequest_hasParts append_hasParts reload_hasParts
        handleSubmit_hasParts triggerRequest_first_request append_first_request append_published)
qed

text \<open>
  Witness of C8: a message set without parts gets them; the history after a streamed
  answer has parts throughout; a message appended without parts is published and sent
  with the text part derived from its content.
\<close>

theorem parts_populated_witness:
  "transportHasParts [streamed (assistantMessage None) Completes] \<and>
   list_all hasParts (messages (setMessages (Direct [userMessage\<lparr>parts := None\<rparr>])
      (useChat_init exampleConfig))) \<and>
   list_all hasParts (messages (snd (triggerRequest exampleConfig
      [streamed (assistantMessage None) Completes] (plainRequest [userMessage\<lparr>parts := None\<rparr>])
      (setMessages (Direct [userMessage\<lparr>parts := None\<rparr>]) (useChat_init exampleConfig))))) \<and>
   parts userCreateMessage = None \<and>
   parts (last (messages (snd (append exampleConfig [] userCreateMessage noOptions
      (useChat_init exampleConfig))))) = Some [TextPart ''hi''] \<and>
   map parts (messages (snd (append exampleConfig [] userCreateMessage noOptions
      (useChat_init exampleConfig)))) = [Some [TextPart ''hi'']] \<and>
   map (map parts) (requests (snd (append exampleConfig
      [streamed (assistantMessage None) Completes] userCreateMessage noOptions
      (useChat_init exampleConfig)))) = [[Some [TextPart ''hi'']]]"
proof -
  have typed: "transportHasParts [streamed (assistantMessage None) Completes]"
    by (simp add: transportHasParts_def hasParts_def streamed_def assistantMessage_def)
  have written: "list_all hasParts (messages (setMessages (Direct [userMessage\<lparr>parts := None\<rparr>])
      (useChat_init exampleConfig)))"
    using parts_populated[where update = "Direct [userMessage\<lparr>parts := None\<rparr>]"
        and st = "useChat_init exampleConfig"]
    by simp
  have kept: "list_all hasParts (messages (snd (triggerRequest exampleConfig
      [streamed (assistantMessage None) Completes] (plainRequest [userMessage\<lparr>parts := None\<rparr>])
      (setMessages (Direct [userMessage\<lparr>parts := None\<rparr>]) (useChat_init exampleConfig)))))"
    using typed written
      parts_populated[where st = "setMessages (Direct [userMessage\<lparr>parts := None\<rparr>])
          (useChat_init exampleConfig)" and cfg = exampleConfig
        and transport = "[streamed (assistantMessage None) Completes]"
        and chatRequest = "plainRequest [userMessage\<lparr>parts := None\<rparr>]"]
    by simp
  have none: "parts userCreateMessage = None"
    by (simp add: userCreateMessage_def)
  have appended: "map parts (messages (snd (append exampleConfig [] userCreateMessage noOptions
      (useChat_init exampleConfig)))) = [Some [TextPart ''hi'']] \<and>
   map (map parts) (requests (snd (append exampleConfig
      [streamed (assistantMessage None) Completes] userCreateMessage noOptions
      (useChat_init exampleConfig)))) = [[Some [TextPart ''hi'']]]"
    by (simp add: append_def nextId_def appendedMessage_def prepareAttachmentsForRequest_def
        userCreateMessage_def example_defs cycle_defs)
  have derived: "getMessageParts userCreateMessage = [TextPart ''hi'']"
    by (simp add: getMessageParts_def userCreateMessage_def)
  have attached: "parts (last (messages (snd (append exampleConfig [] userCreateMessage noOptions
      (useChat_init exampleConfig))))) = Some [TextPart ''hi'']"
    using parts_populated[where cfg = exampleConfig and st = "useChat_init exampleConfig"
        and message = userCreateMessage and options = noOptions,
        THEN conjunct2, THEN conjunct2, THEN conjunct2, THEN conjunct1]
    by (simp add: derived)
  show ?thesis
    using typed written kept none appended attached by simp
qed

subsection \<open>C9: the initial status and \<open>isLoading\<close>\<close>


subsection \<open>C10: \<open>handleSubmit\<close> clears the input\<close>

text \<open>
  C10. When \<open>handleSubmit\<close> submits (the input is not empty, or empty submissions are
  allowed), the input is empty as soon as \<open>handleSubmit\<close> has run its last line, while
  the request it started is still in flight (status \<open>Submitted\<close>); the rest of the
  request runs from that session, and whatever the transport does (it may fail, or be
  cancelled), the input is still empty when the request has ended.
\<close>

theorem handleSubmit_clears_input:
  assumes "input st \<noteq> [] \<or> allowEmptySubmit options"
  shows "input (handleSubmitStarted cfg options st) = [] \<and>
         status (handleSubmitStarted cfg options st) = Submitted \<and>
         handleSubmit cfg transport options st =
           snd (resumeRequest cfg transport
                  (pendingRequest (fst (submittedRequest cfg options st))
                     (snd (submittedRequest cfg options st)))
                  (handleSubmitStarted cfg options st)) \<and>
         input (handleSubmit cfg transport options st) = []"
proof -
  have started: "input (handleSubmitStarted cfg options st) = [] \<and>
      status (handleSubmitStarted cfg options st) = Submitted"
    using assms
    by (auto simp add: handleSubmitStarted_def status_def startRequest_def Let_def split: prod.split)
  have whole: "handleSubmit cfg transport options st =
      snd (resumeRequest cfg transport
             (pendingRequest (fst (submittedRequest cfg options st))
                (snd (submittedRequest cfg options st)))
             (handleSubmitStarted cfg options st))"
    using assms by (auto simp add: handleSubmit_def split: prod.split)
  show ?thesis
    using started whole by (simp add: resumeRequest_input)
qed

text \<open>
  Witness of C10: the input is \<open>hi\<close>. It is empty once the request is started, and
  still empty after the request has failed (status \<open>Error\<close>) or has been cancelled
  (status \<open>Ready\<close>).
\<close>

theorem handleSubmit_clears_input_witness:
  "input (useChat_init exampleConfig) = ''hi'' \<and>
   input (handleSubmitStarted exampleConfig noOptions (useChat_init exampleConfig)) = [] \<and>
   input (handleSubmit exampleConfig
      [\<lparr>events = [], finish = Rejects (ErrorInstance ''TypeError'' ''fetch failed'')\<rparr>]
      noOptions (useChat_init exampleConfig)) = [] \<and>
   status (handleSubmit exampleConfig
      [\<lparr>events = [], finish = Rejects (ErrorInstance ''TypeError'' ''fetch failed'')\<rparr>]
      noOptions (useChat_init exampleConfig)) = Error \<and>
   input (handleSubmit exampleConfig
      [\<lparr>events = [], finish = Rejects (ErrorInstance ''AbortError'' ''aborted'')\<rparr>]
      noOptions (useChat_init exampleConfig)) = [] \<and>
   status (handleSubmit exampleConfig
      [\<lparr>events = [], finish = Rejects (ErrorInstance ''AbortError'' ''aborted'')\<rparr>]
      noOptions (useChat_init exampleConfig)) = Ready"
proof -
  have typed: "input (useChat_init exampleConfig) = ''hi''"
    by (simp add: useChat_init_def exampleConfig_def)
  then have submits: "input (useChat_init exampleConfig) \<noteq> [] \<or> allowEmptySubmit noOptions"
    by simp
  have failed: "status (handleSubmit exampleConfig
      [\<lparr>events = [], finish = Rejects (ErrorInstance ''TypeError'' ''fetch failed'')\<rparr>]
      noOptions (useChat_init exampleConfig)) = Error"
    by (simp add: handleSubmit_def handleSubmitStarted_def submittedRequest_def nextId_def
        prepareAttachmentsForRequest_def example_defs cycle_defs)
  have cancelled: "status (handleSubmit exampleConfig
      [\<lparr>events = [], finish = Rejects (ErrorInstance ''AbortError'' ''aborted'')\<rparr>]
      noOptions (useChat_init exampleConfig)) = Ready"
    by (simp add: handleSubmit_def handleSubmitStarted_def submittedRequest_def nextId_def
        prepareAttachmentsForRequest_def example_defs cycle_defs)
  show ?thesis
    using typed failed cancelled
      handleSubmit_clears_input[OF submits, of exampleConfig
        "[\<lparr>events = [], finish = Rejects (ErrorInstance ''TypeError'' ''fetch failed'')\<rparr>]"]
      handleSubmit_clears_input[OF submits, of exampleConfig
        "[\<lparr>events = [], finish = Rejects (ErrorInstance ''AbortError'' ''aborted'')\<rparr>]"]
    by auto
qed

end
